theory Spec2Isabelle
  imports Main "HOL-Library.Sublist"
begin

section \<open>The evohome\_cc integration: data model\<close>

text \<open>
  The embedding follows \<^verbatim>\<open>__init__.py\<close>. Python objects that the module only reads
  (devices, zones, the gateway's top-level object) are values; the broker, which the
  module owns, is a record that every operation takes and returns. What an operation
  asks of the host framework (a task created, a notification sent, a log line) is
  collected, in program order, in a list of effects.
\<close>

subsection \<open>Values and durations\<close>

text \<open>
  A \<^verbatim>\<open>datetime.timedelta\<close> is a whole number of microseconds; Python compares two of
  them by that number.
\<close>

datatype timedelta = Timedelta (total_microseconds: int)

definition timedelta_seconds :: "int \<Rightarrow> timedelta" where
  "timedelta_seconds s = Timedelta (s * 1000000)"

definition td_ge :: "timedelta \<Rightarrow> timedelta \<Rightarrow> bool" where
  "td_ge a b = (total_microseconds a \<ge> total_microseconds b)"

text \<open>The Python values that travel as configuration, payloads and state attributes.\<close>

datatype pyval =
    PyNone
  | PyStr string
  | PyInt int
  | PyTimedelta timedelta
  | PyList "pyval list"
  | PyDict "(string \<times> pyval) list"

subsection \<open>The gateway's objects\<close>

text \<open>
  A device of the gateway library: its \<^verbatim>\<open>id\<close>, the names for which
  \<^verbatim>\<open>hasattr\<close> answers true, and its controller \<^verbatim>\<open>_ctl\<close> (another device, or
  \<^verbatim>\<open>None\<close>). One value stands for one object: the test \<^verbatim>\<open>d in xs\<close> of Python
  is membership up to equality of these values.
\<close>

datatype device = Device (dev_id: string) (dev_attrs: "string list") (ctl: "device option")

datatype zone = Zone (zone_idx: string)

datatype dhw_zone = DhwZone (dhw_id: string)

text \<open>\<^verbatim>\<open>client.evo\<close>: the inventory with its snapshots, read-only for this module.\<close>

record evohome =
  schema :: pyval
  params :: pyval
  status :: pyval
  zones :: "zone list"
  devices :: "device list"
  dhw :: "dhw_zone option"

subsection \<open>Constants of \<^verbatim>\<open>const.py\<close>\<close>

text \<open>
  \<^verbatim>\<open>DOMAIN\<close>, \<^verbatim>\<open>BINARY_SENSOR_ATTRS\<close> and \<^verbatim>\<open>SENSOR_ATTRS\<close> are imported from
  \<^verbatim>\<open>const.py\<close>; their values are parameters of every definition that uses them.
\<close>

record const =
  DOMAIN :: string
  BINARY_SENSOR_ATTRS :: "string list"
  SENSOR_ATTRS :: "string list"

subsection \<open>The broker\<close>

text \<open>
  \<^verbatim>\<open>EvoBroker\<close>, with \<^verbatim>\<open>client.evo\<close> as the field \<open>client_evo\<close> (\<open>None\<close> until the
  gateway has an inventory). The water-heater object is of a type \<open>'wh\<close> that this module
  never inspects. The handles \<^verbatim>\<open>hass\<close>, \<^verbatim>\<open>_store\<close> and \<^verbatim>\<open>loop_task\<close> carry no
  data the module reads; what is asked of \<^verbatim>\<open>hass\<close> appears as an effect.
\<close>

record 'wh EvoBroker =
  client_evo :: "evohome option"
  broker_params :: pyval
  config :: pyval
  broker_status :: pyval
  binary_sensors :: "device list"
  climates :: "zone list"
  water_heater :: "'wh option"
  sensors :: "device list"
  hass_config :: pyval

definition EvoBroker_init :: "evohome option \<Rightarrow> pyval \<Rightarrow> 'wh EvoBroker" where
  "EvoBroker_init client_evo0 params0 =
     \<lparr> client_evo = client_evo0, broker_params = params0, config = PyNone,
       broker_status = PyNone, binary_sensors = [], climates = [],
       water_heater = None, sensors = [], hass_config = PyNone \<rparr>"

datatype error = AttributeError string

section \<open>The capability classifier\<close>

definition hasattr :: "device \<Rightarrow> string \<Rightarrow> bool" where
  "hasattr d a = (a \<in> set (dev_attrs d))"

text \<open>Python's \<^verbatim>\<open>any\<close> on a list of booleans.\<close>

primrec any_py :: "bool list \<Rightarrow> bool" where
  "any_py [] = False"
| "any_py (x # xs) = (if x then True else any_py xs)"

text \<open>
  The list comprehension of \<^verbatim>\<open>new_binary_sensors\<close>: one pass over the devices, the
  condition read from the broker at every element, the result built by appending. The
  broker is passed through the loop and returned.
\<close>

fun new_binary_sensors_loop ::
  "const \<Rightarrow> device list \<Rightarrow> 'wh EvoBroker \<Rightarrow> device list \<Rightarrow> device list \<times> 'wh EvoBroker" where
  "new_binary_sensors_loop c [] broker acc = (acc, broker)"
| "new_binary_sensors_loop c (d # ds) broker acc =
     (if d \<notin> set (binary_sensors broker)
         \<and> any_py (map (\<lambda>a. hasattr d a) (BINARY_SENSOR_ATTRS c))
      then new_binary_sensors_loop c ds broker (acc @ [d])
      else new_binary_sensors_loop c ds broker acc)"

text \<open>
  \<^verbatim>\<open>broker.client.evo.devices\<close> raises \<^verbatim>\<open>AttributeError\<close> when \<^verbatim>\<open>client.evo\<close> is
  \<^verbatim>\<open>None\<close>.
\<close>

definition new_binary_sensors ::
  "const \<Rightarrow> 'wh EvoBroker \<Rightarrow> (error + device list) \<times> 'wh EvoBroker" where
  "new_binary_sensors c broker =
     (case client_evo broker of
        None \<Rightarrow> (Inl (AttributeError ''devices''), broker)
      | Some evo \<Rightarrow>
          (case new_binary_sensors_loop c (devices evo) broker [] of
             (r, broker') \<Rightarrow> (Inr r, broker')))"

fun new_sensors_loop ::
  "const \<Rightarrow> device list \<Rightarrow> 'wh EvoBroker \<Rightarrow> device list \<Rightarrow> device list \<times> 'wh EvoBroker" where
  "new_sensors_loop c [] broker acc = (acc, broker)"
| "new_sensors_loop c (d # ds) broker acc =
     (if d \<notin> set (sensors broker) \<and> any_py (map (\<lambda>a. hasattr d a) (SENSOR_ATTRS c))
      then new_sensors_loop c ds broker (acc @ [d])
      else new_sensors_loop c ds broker acc)"

definition new_sensors ::
  "const \<Rightarrow> 'wh EvoBroker \<Rightarrow> (error + device list) \<times> 'wh EvoBroker" where
  "new_sensors c broker =
     (case client_evo broker of
        None \<Rightarrow> (Inl (AttributeError ''devices''), broker)
      | Some evo \<Rightarrow>
          (case new_sensors_loop c (devices evo) broker [] of
             (r, broker') \<Rightarrow> (Inr r, broker')))"

section \<open>The broker's poll cycle\<close>

text \<open>
  What \<^verbatim>\<open>update\<close> asks of the host framework. \<open>LoadPlatform\<close> is the coroutine
  \<^verbatim>\<open>async_load_platform(hass, platform, DOMAIN, discovered, hass_config)\<close>;
  \<open>CreateTask\<close> is \<^verbatim>\<open>hass.async_create_task\<close> on it, \<open>DispatcherSend\<close> is
  \<^verbatim>\<open>async_dispatcher_send\<close> on a topic, \<open>LogDebug\<close> a line of the debug log.
\<close>

datatype task =
  LoadPlatform (platform: string) (task_domain: string) (discovered: pyval)
    (task_hass_config: pyval)

datatype effect =
    LogDebug string pyval
  | CreateTask task
  | DispatcherSend string

definition load_platform :: "const \<Rightarrow> 'wh EvoBroker \<Rightarrow> string \<Rightarrow> effect" where
  "load_platform c broker name =
     CreateTask (LoadPlatform name (DOMAIN c) (PyDict []) (hass_config broker))"

text \<open>
  \<^verbatim>\<open>EvoBroker.update\<close>: the result (an exception or \<^verbatim>\<open>None\<close>), the broker
  afterwards, and the effects in the order of the statements.
\<close>

definition update ::
  "const \<Rightarrow> 'wh EvoBroker \<Rightarrow> (error + unit) \<times> 'wh EvoBroker \<times> effect list" where
  "update c self =
     (let evohome = client_evo self;
          fx0 = [LogDebug ''Schema = %s''
                   (case evohome of None \<Rightarrow> PyNone | Some e \<Rightarrow> schema e)]
      in case evohome of
           None \<Rightarrow> (Inr (), self, fx0)
         | Some evo \<Rightarrow>
             (let fx1 = fx0 @
                    (if [z \<leftarrow> zones evo. z \<notin> set (climates self)] \<noteq> []
                     then [load_platform c self ''climate''] else []);
                  fx2 = fx1 @
                    (if dhw evo \<noteq> None \<and> water_heater self = None
                     then [load_platform c self ''water_heater''] else [])
              in case new_sensors c self of
                   (Inl err, self1) \<Rightarrow> (Inl err, self1, fx2)
                 | (Inr ns, self1) \<Rightarrow>
                     (let fx3 = fx2 @
                            (if ns \<noteq> [] then [load_platform c self1 ''sensor''] else [])
                      in case new_binary_sensors c self1 of
                           (Inl err, self2) \<Rightarrow> (Inl err, self2, fx3)
                         | (Inr nb, self2) \<Rightarrow>
                             (let fx4 = fx3 @
                                    (if nb \<noteq> []
                                     then [load_platform c self2 ''binary_sensor'']
                                     else [])
                              in (Inr (), self2,
                                  fx4 @ [LogDebug ''Params = %s'' (params evo),
                                         LogDebug ''Status = %s'' (status evo),
                                         DispatcherSend (DOMAIN c)])))))"


section \<open>The entity base class\<close>

text \<open>
  \<^verbatim>\<open>EvoEntity\<close>: the wrapped device and the fields set by \<^verbatim>\<open>__init__\<close>. The
  back-reference to the broker is not read by the base class.
\<close>

record EvoEntity =
  evo_device :: device
  unique_id :: "string option"
  name :: "string option"
  device_state_attrs :: "(string \<times> pyval) list"

definition EvoEntity_init :: "device \<Rightarrow> EvoEntity" where
  "EvoEntity_init d =
     \<lparr> evo_device = d, unique_id = None, name = None, device_state_attrs = [] \<rparr>"

definition should_poll :: "EvoEntity \<Rightarrow> bool" where
  "should_poll self = False"

text \<open>The dictionary literal of \<^verbatim>\<open>device_state_attributes\<close>, as its list of items.\<close>

definition device_state_attributes :: "EvoEntity \<Rightarrow> (string \<times> pyval) list" where
  "device_state_attributes self =
     [(''controller'',
       (case ctl (evo_device self) of
          Some controller \<Rightarrow> PyStr (dev_id controller)
        | None \<Rightarrow> PyNone))]"

section \<open>The configuration schema: the poll period\<close>

definition SCAN_INTERVAL_DEFAULT :: timedelta where
  "SCAN_INTERVAL_DEFAULT = timedelta_seconds 300"

definition SCAN_INTERVAL_MINIMUM :: timedelta where
  "SCAN_INTERVAL_MINIMUM = timedelta_seconds 10"

datatype vol_error = Invalid | RangeInvalid

text \<open>
  \<^verbatim>\<open>cv.time_period\<close> of the host framework turns a configured value into a
  \<^verbatim>\<open>timedelta\<close> or rejects it. A \<^verbatim>\<open>timedelta\<close> passes unchanged; how strings,
  numbers and dictionaries are read is the framework's business and is the parameter
  \<open>coerce\<close>.
\<close>

definition cv_time_period ::
  "(pyval \<Rightarrow> timedelta option) \<Rightarrow> pyval \<Rightarrow> vol_error + timedelta" where
  "cv_time_period coerce v =
     (case v of
        PyTimedelta t \<Rightarrow> Inr t
      | _ \<Rightarrow> (case coerce v of None \<Rightarrow> Inl Invalid | Some t \<Rightarrow> Inr t))"

text \<open>\<^verbatim>\<open>vol.Range(min=m)\<close>: the bound is included.\<close>

definition vol_Range_min :: "timedelta \<Rightarrow> timedelta \<Rightarrow> vol_error + timedelta" where
  "vol_Range_min m v = (if \<not> td_ge v m then Inl RangeInvalid else Inr v)"

text \<open>
  The entry of \<^verbatim>\<open>CONFIG_SCHEMA\<close> for \<^verbatim>\<open>CONF_SCAN_INTERVAL\<close>:
  \<^verbatim>\<open>vol.All\<close> runs the two validators in turn, and \<^verbatim>\<open>vol.Optional\<close> with a
  default puts the default in the place of a missing value before they run.
\<close>

definition scan_interval_validator ::
  "(pyval \<Rightarrow> timedelta option) \<Rightarrow> pyval \<Rightarrow> vol_error + timedelta" where
  "scan_interval_validator coerce v =
     (case cv_time_period coerce v of
        Inl e \<Rightarrow> Inl e
      | Inr t \<Rightarrow> vol_Range_min SCAN_INTERVAL_MINIMUM t)"

definition validate_scan_interval ::
  "(pyval \<Rightarrow> timedelta option) \<Rightarrow> pyval option \<Rightarrow> vol_error + timedelta" where
  "validate_scan_interval coerce given =
     scan_interval_validator coerce
       (case given of None \<Rightarrow> PyTimedelta SCAN_INTERVAL_DEFAULT | Some v \<Rightarrow> v)"

section \<open>Vocabulary of the properties\<close>

text \<open>
  The classifier in the words of its contract: a device qualifies for a category when it
  exposes at least one of the category's attributes, and the new devices are the devices
  of the inventory, in its order, that are not yet tracked and qualify.
\<close>

definition qualifies :: "string list \<Rightarrow> device \<Rightarrow> bool" where
  "qualifies attrs d = (\<exists>a \<in> set attrs. a \<in> set (dev_attrs d))"

definition new_devices_spec :: "device list \<Rightarrow> string list \<Rightarrow> device list \<Rightarrow> device list" where
  "new_devices_spec inventory attrs already =
     filter (\<lambda>d. d \<notin> set already \<and> qualifies attrs d) inventory"

text \<open>The two categories whose devices are classified by attribute.\<close>

datatype category = BinarySensor | Sensor

fun platform_of :: "category \<Rightarrow> string" where
  "platform_of BinarySensor = ''binary_sensor''"
| "platform_of Sensor = ''sensor''"

fun qualifying_attrs :: "const \<Rightarrow> category \<Rightarrow> string list" where
  "qualifying_attrs c BinarySensor = BINARY_SENSOR_ATTRS c"
| "qualifying_attrs c Sensor = SENSOR_ATTRS c"

fun tracker :: "category \<Rightarrow> 'wh EvoBroker \<Rightarrow> device list" where
  "tracker BinarySensor broker = binary_sensors broker"
| "tracker Sensor broker = sensors broker"

text \<open>Reading a list of effects.\<close>

fun is_request :: "effect \<Rightarrow> bool" where
  "is_request (CreateTask t) = True"
| "is_request _ = False"

fun is_request_for :: "string \<Rightarrow> effect \<Rightarrow> bool" where
  "is_request_for p (CreateTask t) = (platform t = p)"
| "is_request_for p _ = False"

fun is_dispatch :: "effect \<Rightarrow> bool" where
  "is_dispatch (DispatcherSend topic) = True"
| "is_dispatch _ = False"

text \<open>
  The broker tracks everything the inventory holds: every zone, the water heater if
  there is one, and every device that qualifies as a sensor or a binary sensor.
\<close>

definition tracker_complete :: "const \<Rightarrow> 'wh EvoBroker \<Rightarrow> evohome \<Rightarrow> bool" where
  "tracker_complete c broker evo =
     (set (zones evo) \<subseteq> set (climates broker)
      \<and> (dhw evo \<noteq> None \<longrightarrow> water_heater broker \<noteq> None)
      \<and> (\<forall>d \<in> set (devices evo). qualifies (SENSOR_ATTRS c) d \<longrightarrow> d \<in> set (sensors broker))
      \<and> (\<forall>d \<in> set (devices evo).
            qualifies (BINARY_SENSOR_ATTRS c) d \<longrightarrow> d \<in> set (binary_sensors broker)))"

text \<open>The requests of one poll cycle, with the classifier's loops read as filters.\<close>

definition requested :: "const \<Rightarrow> 'wh EvoBroker \<Rightarrow> evohome \<Rightarrow> effect list" where
  "requested c broker evo =
     (if [z \<leftarrow> zones evo. z \<notin> set (climates broker)] \<noteq> []
      then [load_platform c broker ''climate''] else [])
     @ (if dhw evo \<noteq> None \<and> water_heater broker = None
        then [load_platform c broker ''water_heater''] else [])
     @ (if new_devices_spec (devices evo) (SENSOR_ATTRS c) (sensors broker) \<noteq> []
        then [load_platform c broker ''sensor''] else [])
     @ (if new_devices_spec (devices evo) (BINARY_SENSOR_ATTRS c) (binary_sensors broker) \<noteq> []
        then [load_platform c broker ''binary_sensor''] else [])"

subsection \<open>A small installation\<close>

text \<open>
  Example values for the constants of \<^verbatim>\<open>const.py\<close>, a thermostat with a
  temperature, a window sensor bound to it, one zone and a hot-water zone; a broker
  fresh from \<^verbatim>\<open>__init__\<close>, one whose gateway has no inventory yet, and one after
  the platforms have recorded everything.
\<close>

definition example_const :: const where
  "example_const =
     \<lparr> DOMAIN = ''evohome_cc'', BINARY_SENSOR_ATTRS = [''window_open''],
       SENSOR_ATTRS = [''temperature''] \<rparr>"

definition example_device :: device where
  "example_device = Device ''01:123'' [''temperature''] None"

definition example_window :: device where
  "example_window = Device ''04:456'' [''window_open''] (Some example_device)"

definition example_evo :: evohome where
  "example_evo =
     \<lparr> schema = PyDict [], params = PyDict [], status = PyDict [],
       zones = [Zone ''00''], devices = [example_device, example_window],
       dhw = Some (DhwZone ''HW'') \<rparr>"

definition example_broker :: "string EvoBroker" where
  "example_broker = EvoBroker_init (Some example_evo) PyNone"

definition example_offline :: "string EvoBroker" where
  "example_offline = EvoBroker_init None PyNone"

definition example_settled :: "string EvoBroker" where
  "example_settled =
     example_broker \<lparr> binary_sensors := [example_window], climates := [Zone ''00''],
       water_heater := Some ''dhw'', sensors := [example_device] \<rparr>"

definition example_entity :: EvoEntity where
  "example_entity = EvoEntity_init example_device"

definition example_window_entity :: EvoEntity where
  "example_window_entity = EvoEntity_init example_window"


section \<open>The classifier computes the filter\<close>

lemma any_py_map: "any_py (map f xs) = (\<exists>x \<in> set xs. f x)"
  by (induction xs) auto

lemma any_hasattr_qualifies: "any_py (map (\<lambda>a. hasattr d a) attrs) = qualifies attrs d"
  by (simp add: any_py_map qualifies_def hasattr_def)

lemma new_sensors_loop_eq:
  "new_sensors_loop c ds broker acc =
     (acc @ new_devices_spec ds (SENSOR_ATTRS c) (sensors broker), broker)"
  by (induction ds arbitrary: acc) (simp_all add: new_devices_spec_def any_hasattr_qualifies)

lemma new_binary_sensors_loop_eq:
  "new_binary_sensors_loop c ds broker acc =
     (acc @ new_devices_spec ds (BINARY_SENSOR_ATTRS c) (binary_sensors broker), broker)"
  by (induction ds arbitrary: acc) (simp_all add: new_devices_spec_def any_hasattr_qualifies)

lemma new_sensors_eq:
  "new_sensors c broker =
     (case client_evo broker of
        None \<Rightarrow> (Inl (AttributeError ''devices''), broker)
      | Some evo \<Rightarrow>
          (Inr (new_devices_spec (devices evo) (SENSOR_ATTRS c) (sensors broker)), broker))"
  by (simp add: new_sensors_def new_sensors_loop_eq split: option.splits)

lemma new_binary_sensors_eq:
  "new_binary_sensors c broker =
     (case client_evo broker of
        None \<Rightarrow> (Inl (AttributeError ''devices''), broker)
      | Some evo \<Rightarrow>
          (Inr (new_devices_spec (devices evo) (BINARY_SENSOR_ATTRS c) (binary_sensors broker)),
           broker))"
  by (simp add: new_binary_sensors_def new_binary_sensors_loop_eq split: option.splits)

lemma new_devices_spec_nonempty:
  "new_devices_spec inventory attrs already \<noteq> [] \<longleftrightarrow>
     (\<exists>d \<in> set inventory. d \<notin> set already \<and> qualifies attrs d)"
  by (auto simp: new_devices_spec_def filter_empty_conv)

lemma example_broker_evo: "client_evo example_broker = Some example_evo"
  by (simp add: example_broker_def EvoBroker_init_def)

lemma example_settled_evo: "client_evo example_settled = Some example_evo"
  by (simp add: example_settled_def example_broker_def EvoBroker_init_def)

lemma example_settled_complete: "tracker_complete example_const example_settled example_evo"
  by (simp add: tracker_complete_def example_settled_def example_broker_def EvoBroker_init_def
      example_evo_def qualifies_def example_const_def example_device_def example_window_def)

text \<open>
  C5. With an inventory, \<^verbatim>\<open>new_sensors\<close> returns the devices of the inventory, in
  inventory order, that are absent from \<^verbatim>\<open>broker.sensors\<close> and expose at least one
  attribute of \<^verbatim>\<open>SENSOR_ATTRS\<close>; \<^verbatim>\<open>new_binary_sensors\<close> does the same with
  \<^verbatim>\<open>broker.binary_sensors\<close> and \<^verbatim>\<open>BINARY_SENSOR_ATTRS\<close>. Both results are
  subsequences of the inventory.
\<close>

theorem new_sensors_subsequence:
  assumes "client_evo broker = Some evo"
  shows "fst (new_sensors c broker) =
           Inr (filter (\<lambda>d. d \<notin> set (sensors broker) \<and> qualifies (SENSOR_ATTRS c) d)
                  (devices evo))
       \<and> fst (new_binary_sensors c broker) =
           Inr (filter (\<lambda>d. d \<notin> set (binary_sensors broker)
                             \<and> qualifies (BINARY_SENSOR_ATTRS c) d) (devices evo))
       \<and> subseq (new_devices_spec (devices evo) (SENSOR_ATTRS c) (sensors broker)) (devices evo)
       \<and> subseq (new_devices_spec (devices evo) (BINARY_SENSOR_ATTRS c) (binary_sensors broker))
           (devices evo)"
  using assms by (simp add: new_sensors_eq new_binary_sensors_eq new_devices_spec_def)

theorem new_sensors_subsequence_witness:
  "fst (new_sensors example_const example_broker) = Inr [example_device]
   \<and> fst (new_binary_sensors example_const example_broker) = Inr [example_window]"
  using new_sensors_subsequence [OF example_broker_evo, of example_const]
  by (simp add: example_const_def example_broker_def EvoBroker_init_def example_evo_def
      qualifies_def example_device_def example_window_def)

text \<open>
  C6. \<^verbatim>\<open>new_sensors\<close> and \<^verbatim>\<open>new_binary_sensors\<close> return the broker as they found
  it, whatever its state, so none of its tracker lists changes; and their result is the
  same for two brokers with the same inventory and the same tracker list.
\<close>

theorem new_sensors_pure:
  "snd (new_sensors c broker) = broker
   \<and> snd (new_binary_sensors c broker) = broker
   \<and> (client_evo broker' = client_evo broker \<and> sensors broker' = sensors broker
        \<longrightarrow> fst (new_sensors c broker') = fst (new_sensors c broker))
   \<and> (client_evo broker' = client_evo broker \<and> binary_sensors broker' = binary_sensors broker
        \<longrightarrow> fst (new_binary_sensors c broker') = fst (new_binary_sensors c broker))"
  by (simp add: new_sensors_eq new_binary_sensors_eq split: option.splits)

theorem new_sensors_pure_witness:
  "snd (new_sensors example_const example_broker) = example_broker
   \<and> snd (new_binary_sensors example_const example_broker) = example_broker
   \<and> fst (new_sensors example_const (example_broker\<lparr>climates := [Zone ''00'']\<rparr>)) =
       fst (new_sensors example_const example_broker)
   \<and> fst (new_binary_sensors example_const (example_broker\<lparr>climates := [Zone ''00'']\<rparr>)) =
       fst (new_binary_sensors example_const example_broker)"
  using new_sensors_pure [of example_const example_broker
      "example_broker\<lparr>climates := [Zone ''00'']\<rparr>"]
  by simp

section \<open>One poll cycle\<close>

lemma update_None:
  "client_evo broker = None \<Longrightarrow>
     update c broker = (Inr (), broker, [LogDebug ''Schema = %s'' PyNone])"
  by (simp add: update_def)

lemma update_Some:
  "client_evo broker = Some evo \<Longrightarrow>
     update c broker =
       (Inr (), broker,
        LogDebug ''Schema = %s'' (schema evo) # requested c broker evo
          @ [LogDebug ''Params = %s'' (params evo), LogDebug ''Status = %s'' (status evo),
             DispatcherSend (DOMAIN c)])"
  by (simp add: update_def Let_def new_sensors_eq new_binary_sensors_eq requested_def)

lemma update_triple:
  "update c broker =
     (fst (update c broker), fst (snd (update c broker)), snd (snd (update c broker)))"
  by simp

lemma requested_no_dispatch: "filter is_dispatch (requested c broker evo) = []"
  by (simp add: requested_def load_platform_def)

lemma requested_sensor:
  "filter (is_request_for ''sensor'') (requested c broker evo) =
     (if new_devices_spec (devices evo) (SENSOR_ATTRS c) (sensors broker) \<noteq> []
      then [load_platform c broker ''sensor''] else [])"
  by (simp add: requested_def load_platform_def)

lemma requested_binary_sensor:
  "filter (is_request_for ''binary_sensor'') (requested c broker evo) =
     (if new_devices_spec (devices evo) (BINARY_SENSOR_ATTRS c) (binary_sensors broker) \<noteq> []
      then [load_platform c broker ''binary_sensor''] else [])"
  by (simp add: requested_def load_platform_def)


lemma requested_complete:
  "tracker_complete c broker evo \<Longrightarrow> requested c broker evo = []"
  by (auto simp: requested_def tracker_complete_def new_devices_spec_nonempty filter_empty_conv)

text \<open>
  C1, as amended. Let the inventory be available, \<open>d\<close> one of its devices, \<open>cat\<close> the
  sensor or the binary-sensor category, \<open>d\<close> exposing one of the category's attributes
  and absent from the broker's tracker list for it. Then one call to \<^verbatim>\<open>update\<close>
  returns normally and issues exactly one materialization request naming the category;
  the request carries the empty payload, and the broker (with it the tracker list) is
  after the call what it was before.
\<close>

theorem update_materializes:
  assumes "client_evo broker = Some evo"
    and "d \<in> set (devices evo)"
    and "qualifies (qualifying_attrs c cat) d"
    and "d \<notin> set (tracker cat broker)"
    and "update c broker = (r, broker', fx)"
  shows "r = Inr ()
       \<and> filter (is_request_for (platform_of cat)) fx =
           [CreateTask
              (LoadPlatform (platform_of cat) (DOMAIN c) (PyDict []) (hass_config broker))]
       \<and> broker' = broker"
proof -
  have ne: "new_devices_spec (devices evo) (qualifying_attrs c cat) (tracker cat broker) \<noteq> []"
    using assms(2-4) by (auto simp: new_devices_spec_nonempty)
  have fx: "fx = LogDebug ''Schema = %s'' (schema evo) # requested c broker evo
          @ [LogDebug ''Params = %s'' (params evo), LogDebug ''Status = %s'' (status evo),
             DispatcherSend (DOMAIN c)]"
    and r: "r = Inr ()" and b: "broker' = broker"
    using assms(5) update_Some [OF assms(1), of c] by auto
  have "filter (is_request_for (platform_of cat)) fx =
          [load_platform c broker (platform_of cat)]"
  proof (cases cat)
    case BinarySensor
    with ne show ?thesis by (simp add: fx requested_binary_sensor)
  next
    case Sensor
    with ne show ?thesis by (simp add: fx requested_sensor)
  qed
  with r b show ?thesis by (simp add: load_platform_def)
qed

theorem update_materializes_witness:
  "filter (is_request_for ''sensor'') (snd (snd (update example_const example_broker))) =
     [CreateTask (LoadPlatform ''sensor'' ''evohome_cc'' (PyDict []) PyNone)]
   \<and> fst (snd (update example_const example_broker)) = example_broker"
proof -
  have 2: "example_device \<in> set (devices example_evo)"
    by (simp add: example_evo_def)
  have 3: "qualifies (qualifying_attrs example_const Sensor) example_device"
    by (simp add: qualifies_def example_const_def example_device_def)
  have 4: "example_device \<notin> set (tracker Sensor example_broker)"
    by (simp add: example_broker_def EvoBroker_init_def)
  show ?thesis
    using update_materializes [OF example_broker_evo 2 3 4 update_triple]
    by (simp add: example_const_def example_broker_def EvoBroker_init_def)
qed

text \<open>
  C1 as stated fails: the thermostat of the example is in the inventory, qualifies as a
  sensor and is not tracked; after \<^verbatim>\<open>update\<close> it is still not in
  \<^verbatim>\<open>broker.sensors\<close>, and the one request for the sensor platform carries the empty
  payload, which names no device.
\<close>

theorem update_marks_tracker_counterexample:
  "client_evo example_broker = Some example_evo
   \<and> example_device \<in> set (devices example_evo)
   \<and> qualifies (qualifying_attrs example_const Sensor) example_device
   \<and> example_device \<notin> set (tracker Sensor example_broker)
   \<and> example_device \<notin> set (tracker Sensor (fst (snd (update example_const example_broker))))
   \<and> filter (is_request_for ''sensor'') (snd (snd (update example_const example_broker))) =
       [CreateTask (LoadPlatform ''sensor'' ''evohome_cc'' (PyDict []) PyNone)]"
  unfolding update_Some [OF example_broker_evo]
  by (simp add: example_broker_def EvoBroker_init_def example_evo_def qualifies_def
      example_const_def example_device_def example_window_def requested_def
      new_devices_spec_def load_platform_def)

text \<open>
  C2. A first call to \<^verbatim>\<open>update\<close> is made with an inventory; a second call is made
  with the same inventory, in a broker whose tracker lists hold every zone, the water
  heater and every qualifying device. The second call issues no materialization request,
  and each of the two calls publishes one refresh notification.
\<close>

theorem update_idempotent:
  assumes "client_evo broker = Some evo"
    and "update c broker = (r1, broker1, fx1)"
    and "client_evo broker2 = Some evo"
    and "tracker_complete c broker2 evo"
    and "update c broker2 = (r2, broker3, fx2)"
  shows "filter is_request fx2 = []
       \<and> filter is_dispatch fx1 = [DispatcherSend (DOMAIN c)]
       \<and> filter is_dispatch fx2 = [DispatcherSend (DOMAIN c)]"
proof -
  have fx1: "fx1 = LogDebug ''Schema = %s'' (schema evo) # requested c broker evo
          @ [LogDebug ''Params = %s'' (params evo), LogDebug ''Status = %s'' (status evo),
             DispatcherSend (DOMAIN c)]"
    using assms(2) update_Some [OF assms(1), of c] by auto
  have fx2: "fx2 = LogDebug ''Schema = %s'' (schema evo) # requested c broker2 evo
          @ [LogDebug ''Params = %s'' (params evo), LogDebug ''Status = %s'' (status evo),
             DispatcherSend (DOMAIN c)]"
    using assms(5) update_Some [OF assms(3), of c] by auto
  show ?thesis
    by (simp add: fx1 fx2 requested_no_dispatch requested_complete [OF assms(4)])
qed

theorem update_idempotent_witness:
  "filter is_request (snd (snd (update example_const example_settled))) = []
   \<and> filter is_dispatch (snd (snd (update example_const example_broker))) =
       [DispatcherSend ''evohome_cc'']
   \<and> filter is_dispatch (snd (snd (update example_const example_settled))) =
       [DispatcherSend ''evohome_cc'']"
  using update_idempotent [OF example_broker_evo update_triple example_settled_evo
      example_settled_complete update_triple]
  by (simp add: example_const_def)

text \<open>
  C3. When \<^verbatim>\<open>client.evo\<close> is \<^verbatim>\<open>None\<close>, \<^verbatim>\<open>update\<close> returns normally with the
  broker unchanged; its only effect is the debug line, so it issues no materialization
  request and publishes no notification.
\<close>

theorem update_without_inventory:
  assumes "client_evo broker = None"
  shows "update c broker = (Inr (), broker, [LogDebug ''Schema = %s'' PyNone])
       \<and> filter is_request (snd (snd (update c broker))) = []
       \<and> filter is_dispatch (snd (snd (update c broker))) = []"
  using assms by (simp add: update_None)

theorem update_without_inventory_witness:
  "update example_const example_offline =
     (Inr (), example_offline, [LogDebug ''Schema = %s'' PyNone])"
proof -
  have "client_evo example_offline = None"
    by (simp add: example_offline_def EvoBroker_init_def)
  from update_without_inventory [OF this] show ?thesis by simp
qed

text \<open>
  C4. In every call to \<^verbatim>\<open>update\<close> with an inventory, the last effect is the
  notification on the topic \<^verbatim>\<open>DOMAIN\<close>; nothing before it is a notification, and all
  the materialization requests of the call are before it. Nothing is assumed about what
  was discovered.
\<close>

theorem update_publishes_once:
  assumes "client_evo broker = Some evo"
    and "update c broker = (r, broker', fx)"
  shows "fx = butlast fx @ [DispatcherSend (DOMAIN c)]
       \<and> filter is_dispatch (butlast fx) = []
       \<and> filter is_request (butlast fx) = filter is_request fx"
proof -
  let ?before = "LogDebug ''Schema = %s'' (schema evo) # requested c broker evo
          @ [LogDebug ''Params = %s'' (params evo), LogDebug ''Status = %s'' (status evo)]"
  have fx: "fx = ?before @ [DispatcherSend (DOMAIN c)]"
    using assms(2) update_Some [OF assms(1), of c] by auto
  then have "butlast fx = ?before"
    by (simp only: butlast_snoc)
  moreover have "filter is_dispatch ?before = []"
    by (simp add: requested_no_dispatch)
  moreover have "filter is_request ?before = filter is_request fx"
    by (simp add: fx)
  ultimately show ?thesis using fx by simp
qed

theorem update_publishes_once_witness:
  "filter is_dispatch (butlast (snd (snd (update example_const example_settled)))) = []
   \<and> last (snd (snd (update example_const example_settled))) = DispatcherSend ''evohome_cc''"
proof -
  have "last (butlast (snd (snd (update example_const example_settled)))
          @ [DispatcherSend (DOMAIN example_const)]) = DispatcherSend ''evohome_cc''"
    by (simp add: example_const_def)
  with update_publishes_once [OF example_settled_evo update_triple, of example_const]
  show ?thesis by simp
qed

section \<open>The water heater and the payload of a request\<close>









text \<open>
  C10. Every materialization request that \<^verbatim>\<open>update\<close> issues carries the empty
  dictionary as its discovery payload; what tells one request from another is the
  platform (one of the four categories), under the topic \<^verbatim>\<open>DOMAIN\<close>.
\<close>

theorem update_payload_empty:
  "\<forall>t. CreateTask t \<in> set (snd (snd (update c broker))) \<longrightarrow>
         discovered t = PyDict []
       \<and> platform t \<in> {''climate'', ''water_heater'', ''sensor'', ''binary_sensor''}
       \<and> task_domain t = DOMAIN c"
proof (cases "client_evo broker")
  case None
  then show ?thesis by (simp add: update_None)
next
  case (Some evo)
  then show ?thesis
    by (auto simp: update_Some requested_def load_platform_def split: if_splits)
qed

theorem update_payload_empty_witness:
  "CreateTask (LoadPlatform ''sensor'' ''evohome_cc'' (PyDict []) PyNone)
     \<in> set (snd (snd (update example_const example_broker)))
   \<and> discovered (LoadPlatform ''sensor'' ''evohome_cc'' (PyDict []) PyNone) = PyDict []"
proof -
  have "CreateTask (LoadPlatform ''sensor'' ''evohome_cc'' (PyDict []) PyNone)
     \<in> set (snd (snd (update example_const example_broker)))"
    unfolding update_Some [OF example_broker_evo]
    by (simp add: requested_def load_platform_def new_devices_spec_def qualifies_def
        example_const_def example_evo_def example_device_def example_window_def
        example_broker_def EvoBroker_init_def)
  with update_payload_empty [of example_const example_broker] show ?thesis by blast
qed

section \<open>The state attributes of an entity\<close>

text \<open>
  C7 as stated fails: the thermostat of the example has no controller, and the
  attribute map of its entity still has the entry \<^verbatim>\<open>controller\<close>, with the value
  \<^verbatim>\<open>None\<close>.
\<close>

theorem controller_attribute_counterexample:
  "ctl (evo_device example_entity) = None
   \<and> map_of (device_state_attributes example_entity) ''controller'' = Some PyNone
   \<and> ''controller'' \<in> dom (map_of (device_state_attributes example_entity))"
  by (simp add: example_entity_def EvoEntity_init_def example_device_def
      device_state_attributes_def)

text \<open>
  C7, as amended. For every entity, the attribute map has exactly the key
  \<^verbatim>\<open>controller\<close>; its value is the \<^verbatim>\<open>id\<close> of the wrapped device's controller when
  the device has one, and \<^verbatim>\<open>None\<close> when it has none.
\<close>

theorem controller_attribute:
  "map fst (device_state_attributes self) = [''controller'']
   \<and> map_of (device_state_attributes self) ''controller'' =
       Some (case ctl (evo_device self) of
               Some controller \<Rightarrow> PyStr (dev_id controller)
             | None \<Rightarrow> PyNone)"
  by (simp add: device_state_attributes_def)

theorem controller_attribute_witness:
  "map_of (device_state_attributes example_window_entity) ''controller'' = Some (PyStr ''01:123'')
   \<and> map_of (device_state_attributes example_entity) ''controller'' = Some PyNone"
  using controller_attribute [of example_window_entity] controller_attribute [of example_entity]
  by (simp add: example_window_entity_def example_entity_def EvoEntity_init_def
      example_window_def example_device_def)

section \<open>The floor of the poll period\<close>

text \<open>
  C8. A configured period is accepted exactly when it is at least ten seconds: a
  \<^verbatim>\<open>timedelta\<close> is returned as it is when it reaches the minimum and rejected as
  out of range otherwise; any other value is accepted exactly when the framework reads
  it as a period and that period reaches the minimum, and the accepted value is that
  period. When no period is configured, the result is the default of 300 seconds.
\<close>

theorem scan_interval_floor:
  "validate_scan_interval coerce (Some (PyTimedelta t)) =
     (if td_ge t (timedelta_seconds 10) then Inr t else Inl RangeInvalid)
   \<and> ((\<exists>t. validate_scan_interval coerce (Some v) = Inr t) \<longleftrightarrow>
        (\<exists>t. cv_time_period coerce v = Inr t \<and> td_ge t (timedelta_seconds 10)))
   \<and> (validate_scan_interval coerce (Some v) = Inr t' \<longrightarrow> cv_time_period coerce v = Inr t')
   \<and> validate_scan_interval coerce None = Inr (timedelta_seconds 300)"
  by (auto simp: validate_scan_interval_def scan_interval_validator_def cv_time_period_def
      vol_Range_min_def SCAN_INTERVAL_MINIMUM_def SCAN_INTERVAL_DEFAULT_def td_ge_def
      timedelta_seconds_def split: sum.splits pyval.splits option.splits if_splits)

theorem scan_interval_floor_witness:
  "validate_scan_interval (\<lambda>v. None) (Some (PyTimedelta (timedelta_seconds 10))) =
     Inr (timedelta_seconds 10)
   \<and> validate_scan_interval (\<lambda>v. None) (Some (PyTimedelta (Timedelta 9999999))) =
       Inl RangeInvalid
   \<and> validate_scan_interval (\<lambda>v. None) None = Inr (timedelta_seconds 300)"
  using scan_interval_floor [of "\<lambda>v. None" "timedelta_seconds 10"]
    scan_interval_floor [of "\<lambda>v. None" "Timedelta 9999999"]
  by (simp add: td_ge_def timedelta_seconds_def)

end
